theory Spec2Isabelle
  imports Complex_Main "HOL-Library.Sublist" "HOL-Library.AList"
begin

section \<open>Python values and exceptions\<close>

text \<open>
  A raised Python exception is a value: its class name and the text that \<open>str(e)\<close>
  gives. A function that may raise returns \<open>py_exception + 'a\<close>, with \<open>Inl\<close> for the
  exception.
\<close>

datatype py_exception = PyExc (exc_type: string) (exc_str: string)

text \<open>
  Python floats are idealised as real numbers: rounding, infinities and NaN are outside the
  model. Division by a float zero raises, which the model writes out.
\<close>

text \<open>
  The values that \<open>json.load\<close> produces and that a submission dictionary holds, and
  \<open>Decimal\<close>, which the store uses for numbers. A dictionary is a list of items in
  insertion order; \<open>AList.update\<close> is Python's \<open>d[k] = v\<close> (overwrite in place, or
  append), \<open>AList.delete\<close> is \<open>del d[k]\<close> for a key that is present, \<open>map_of\<close>
  is the lookup.
\<close>

datatype py_value =
    PNone
  | PBool bool
  | PInt int
  | PFloat real
  | PDecimal real
  | PStr string
  | PList "py_value list"
  | PDict "(string \<times> py_value) list"

type_synonym py_dict = "(string \<times> py_value) list"

text \<open>\<open>repr\<close> of a string without quotes or escapes in it, as \<open>str(KeyError(k))\<close> prints it.\<close>

definition py_repr_str :: "string \<Rightarrow> string" where
  "py_repr_str s = CHR 0x27 # s @ [CHR 0x27]"

text \<open>\<open>xs[i]\<close> on a sequence: a negative index counts from the end, out of range raises.\<close>

definition seq_getitem :: "'a list \<Rightarrow> int \<Rightarrow> string \<Rightarrow> py_exception + 'a" where
  "seq_getitem xs i kind =
     (if 0 \<le> i \<and> i < int (length xs) then Inr (xs ! nat i)
      else if i < 0 \<and> - int (length xs) \<le> i then Inr (xs ! nat (int (length xs) + i))
      else Inl (PyExc ''IndexError'' (kind @ '' index out of range'')))"

text \<open>
  \<open>container[key]\<close> for the values above. A \<open>bool\<close> is an \<open>int\<close> in Python and
  indexes a sequence; a list or a dict is not hashable, so it is a \<open>TypeError\<close> as a
  dictionary key; the keys of a dictionary decoded from JSON are strings, so any other
  hashable key is missing.
\<close>

definition py_getitem :: "py_value \<Rightarrow> py_value \<Rightarrow> py_exception + py_value" where
  "py_getitem container key =
     (case container of
        PList xs \<Rightarrow>
          (case key of
             PInt i \<Rightarrow> seq_getitem xs i ''list''
           | PBool b \<Rightarrow> seq_getitem xs (if b then 1 else 0) ''list''
           | _ \<Rightarrow> Inl (PyExc ''TypeError'' ''list indices must be integers or slices''))
      | PStr s \<Rightarrow>
          (case key of
             PInt i \<Rightarrow> map_sum id (\<lambda>c. PStr [c]) (seq_getitem s i ''string'')
           | PBool b \<Rightarrow>
               map_sum id (\<lambda>c. PStr [c]) (seq_getitem s (if b then 1 else 0) ''string'')
           | _ \<Rightarrow> Inl (PyExc ''TypeError'' ''string indices must be integers''))
      | PDict kvs \<Rightarrow>
          (case key of
             PStr k \<Rightarrow>
               (case map_of kvs k of
                  None \<Rightarrow> Inl (PyExc ''KeyError'' (py_repr_str k))
                | Some v \<Rightarrow> Inr v)
           | PList _ \<Rightarrow> Inl (PyExc ''TypeError'' ''unhashable type: list'')
           | PDict _ \<Rightarrow> Inl (PyExc ''TypeError'' ''unhashable type: dict'')
           | _ \<Rightarrow> Inl (PyExc ''KeyError'' ''key is not a string''))
      | _ \<Rightarrow> Inl (PyExc ''TypeError'' ''object is not subscriptable''))"

section \<open>The battery (bot/environment.py)\<close>







section \<open>Tag polling (submission\_backend/poll.py)\<close>

text \<open>
  Python's \<open>sub in s\<close> on strings: \<open>sub\<close> occurs in \<open>s\<close> as a contiguous run of
  characters.
\<close>

fun str_contains :: "string \<Rightarrow> string \<Rightarrow> bool" where
  "str_contains sub [] = (sub = [])"
| "str_contains sub (c # cs) = (prefix sub (c # cs) \<or> str_contains sub cs)"

text \<open>One entry of the GitHub tag listing: \<open>tag['name']\<close> and \<open>tag['commit']['sha']\<close>.\<close>

record tag =
  name :: string
  sha :: string

text \<open>
  What \<open>requests.get\<close> does: it returns a response with a status code and a decoded
  body, or it raises (connection refused, DNS failure, timeout).
\<close>

datatype http_outcome =
  Response (status_code: nat) (json_body: "tag list")
| RequestRaises py_exception

text \<open>The loop over \<open>response.json()\<close>, appending to \<open>submission_tags\<close>.\<close>

fun collect_submission_tags :: "tag list \<Rightarrow> (string \<times> string) list \<Rightarrow> (string \<times> string) list" where
  "collect_submission_tags [] submission_tags = submission_tags"
| "collect_submission_tags (t # ts) submission_tags =
     collect_submission_tags ts
       (if str_contains ''submission'' (name t)
        then submission_tags @ [(name t, sha t)]
        else submission_tags)"

text \<open>
  \<open>check_submission_tags\<close>, given what the request to the repository's tag listing does.
  A response other than 200 gives the empty list; an exception of the request is not caught.
\<close>

definition check_submission_tags :: "http_outcome \<Rightarrow> py_exception + (string \<times> string) list" where
  "check_submission_tags outcome =
     (case outcome of
        RequestRaises e \<Rightarrow> Inl e
      | Response code body \<Rightarrow>
          Inr (if code = 200 then collect_submission_tags body [] else []))"

section \<open>The world outside the program\<close>

text \<open>
  The host file system, as far as the pipeline looks at it: a path names a directory, a
  regular file, or nothing. The text of a file either decodes as JSON to a value, or it
  does not.
\<close>

datatype file_content = JsonText py_value | OtherText string

datatype node = Directory | RegularFile file_content

type_synonym filesystem = "string \<Rightarrow> node option"

definition os_path_exists :: "filesystem \<Rightarrow> string \<Rightarrow> bool" where
  "os_path_exists fs path \<longleftrightarrow> fs path \<noteq> None"

text \<open>\<open>os.path.join(a, b)\<close> for a relative \<open>b\<close>.\<close>

definition os_path_join :: "string \<Rightarrow> string \<Rightarrow> string" where
  "os_path_join a b = (if a = [] \<or> last a = CHR ''/'' then a @ b else a @ ''/'' @ b)"

text \<open>\<open>with open(path, 'r') as f: data = json.load(f)\<close>.\<close>

definition read_json :: "filesystem \<Rightarrow> string \<Rightarrow> py_exception + py_value" where
  "read_json fs path =
     (case fs path of
        None \<Rightarrow>
          Inl (PyExc ''FileNotFoundError''
                 (''[Errno 2] No such file or directory: '' @ py_repr_str path))
      | Some Directory \<Rightarrow>
          Inl (PyExc ''IsADirectoryError''
                 (''[Errno 21] Is a directory: '' @ py_repr_str path))
      | Some (RegularFile (OtherText _)) \<Rightarrow>
          Inl (PyExc ''JSONDecodeError'' ''Expecting value: line 1 column 1 (char 0)'')
      | Some (RegularFile (JsonText data)) \<Rightarrow> Inr data)"

definition os_remove :: "filesystem \<Rightarrow> string \<Rightarrow> py_exception + filesystem" where
  "os_remove fs path =
     (case fs path of
        None \<Rightarrow>
          Inl (PyExc ''FileNotFoundError''
                 (''[Errno 2] No such file or directory: '' @ py_repr_str path))
      | Some Directory \<Rightarrow>
          Inl (PyExc ''IsADirectoryError''
                 (''[Errno 21] Is a directory: '' @ py_repr_str path))
      | Some (RegularFile _) \<Rightarrow> Inr (fs(path := None)))"

text \<open>\<open>rm -rf path\<close>: the path and everything below it.\<close>

definition rm_rf :: "filesystem \<Rightarrow> string \<Rightarrow> filesystem" where
  "rm_rf fs path = (\<lambda>q. if q = path \<or> prefix (path @ ''/'') q then None else fs q)"

text \<open>The Docker daemon's state: image tags, and containers by id.\<close>

datatype container_state = Running | Exited int

record container =
  container_image :: string
  container_status :: container_state

text \<open>The store's answer to one \<open>put_item\<close>: a response with an HTTP status, or a raise.\<close>

datatype put_outcome = PutStatus nat | PutRaises py_exception

text \<open>
  What the outside world decides during one evaluation: whether \<open>git clone\<close> leaves a
  directory, the \<open>uuid4\<close> drawn for the image tag, the id the daemon gives the
  container, which Docker call raises (\<open>None\<close>: it succeeds), whether the
  submission's program ever ends, what it does to the file system while it runs, and the
  container's exit status.
\<close>

record sandbox_run =
  clone_succeeds :: bool
  uuid4 :: string
  build_raises :: "py_exception option"
  run_raises :: "py_exception option"
  new_container_id :: string
  logs_raises :: "py_exception option"
  container_exits :: bool
  program_effect :: "filesystem \<Rightarrow> filesystem"
  exit_status :: int
  stop_raises :: "py_exception option"
  remove_raises :: "py_exception option"
  image_remove_raises :: "py_exception option"

text \<open>
  The state the pipeline acts on. \<open>put_log\<close> lists the items passed to \<open>put_item\<close>
  so far and \<open>evaluations\<close> the \<open>(repo_name, commit_sha)\<close> of every call of
  \<open>run_evaluation\<close> so far, both in order; the code keeps neither, they record what it
  did.
\<close>

record world =
  files :: filesystem
  images :: "string set"
  containers :: "string \<Rightarrow> container option"
  table :: "py_value \<times> py_value \<Rightarrow> py_dict option"
  put_log :: "py_dict list"
  evaluations :: "(string \<times> string) list"

text \<open>
  What the outside world decides during one run of the poller: whether start-up (reading
  the credentials, creating the clients) raises, the working directory, the answer of
  GitHub for each repository, the answer of the store to the n-th \<open>put_item\<close>, the clock
  at the n-th \<open>put_item\<close>, and the n-th evaluation.
\<close>

record environment =
  startup_raises :: "py_exception option"
  cwd :: string
  github :: "string \<Rightarrow> http_outcome"
  put_item_response :: "nat \<Rightarrow> put_outcome"
  time_ms :: "nat \<Rightarrow> int"
  sandbox :: "nat \<Rightarrow> sandbox_run"

section \<open>The store client (submission\_backend/db.py)\<close>

text \<open>
  \<open>convert_floats_to_decimal\<close>. \<open>Decimal(str(obj))\<close> is exact on the idealised floats
  of this model; what \<open>str\<close> and \<open>Decimal\<close> do to a binary float is not modelled.
\<close>

primrec convert_floats_to_decimal :: "py_value \<Rightarrow> py_value" where
  "convert_floats_to_decimal PNone = PNone"
| "convert_floats_to_decimal (PBool b) = PBool b"
| "convert_floats_to_decimal (PInt i) = PInt i"
| "convert_floats_to_decimal (PFloat x) = PDecimal x"
| "convert_floats_to_decimal (PDecimal x) = PDecimal x"
| "convert_floats_to_decimal (PStr s) = PStr s"
| "convert_floats_to_decimal (PList xs) = PList (map convert_floats_to_decimal xs)"
| "convert_floats_to_decimal (PDict kvs) =
     PDict (map (map_prod id convert_floats_to_decimal) kvs)"

definition decimal_default :: "py_value \<Rightarrow> py_exception + py_value" where
  "decimal_default obj =
     (case obj of
        PDecimal x \<Rightarrow> Inr (PFloat x)
      | _ \<Rightarrow> Inl (PyExc ''TypeError'' ''Type not serializable''))"

text \<open>\<open>DBClient.is_already_submitted\<close>: \<open>get_item\<close> found an item under the key.\<close>

definition is_already_submitted :: "world \<Rightarrow> string \<Rightarrow> string \<Rightarrow> bool" where
  "is_already_submitted w team submission_hash \<longleftrightarrow>
     table w (PStr team, PStr submission_hash) \<noteq> None"

text \<open>
  The item that \<open>DBClient.submit\<close> hands to \<open>put_item\<close>: the converted copy with
  the time of the call under \<open>submitted_at\<close>.
\<close>

definition cloned_submission :: "environment \<Rightarrow> nat \<Rightarrow> py_dict \<Rightarrow> py_dict" where
  "cloned_submission env n submission =
     AList.update ''submitted_at'' (PInt (time_ms env n))
       (map (map_prod id convert_floats_to_decimal) submission)"

text \<open>
  \<open>DBClient.submit\<close>. The two assertions come first. The item is stored under its
  \<open>(team, commit_hash)\<close> when the store answers 200, replacing what was there; any other
  status stores nothing and gives \<open>False\<close>; a raise of \<open>put_item\<close> is not caught.
\<close>

definition submit :: "environment \<Rightarrow> world \<Rightarrow> py_dict \<Rightarrow> world \<times> (py_exception + bool)" where
  "submit env w submission =
     (case map_of submission ''team'' of
        None \<Rightarrow> (w, Inl (PyExc ''AssertionError'' ''team (primary key) not found''))
      | Some _ \<Rightarrow>
     (case map_of submission ''commit_hash'' of
        None \<Rightarrow> (w, Inl (PyExc ''AssertionError'' ''commit_hash (secondary key) not found''))
      | Some _ \<Rightarrow>
        (let n = length (put_log w);
             item = cloned_submission env n submission;
             w' = w\<lparr>put_log := put_log w @ [item]\<rparr>
         in case put_item_response env n of
              PutRaises e \<Rightarrow> (w', Inl e)
            | PutStatus code \<Rightarrow>
                if code = 200
                then (case (map_of item ''team'', map_of item ''commit_hash'') of
                        (Some t, Some c) \<Rightarrow>
                          (w'\<lparr>table := (table w')((t, c) \<mapsto> item)\<rparr>, Inr True)
                      | _ \<Rightarrow> (w', Inr True))
                else (w', Inr False))))"

section \<open>The sandbox runner (submission\_backend/dock.py)\<close>

text \<open>
  The Docker calls of \<open>save_docker_submission\<close>, each on the world and returning the
  world it leaves. A call that raises changes nothing.
\<close>

definition images_build :: "sandbox_run \<Rightarrow> world \<Rightarrow> world \<times> (py_exception + unit)" where
  "images_build sb w =
     (case build_raises sb of
        Some e \<Rightarrow> (w, Inl e)
      | None \<Rightarrow> (w\<lparr>images := insert (uuid4 sb) (images w)\<rparr>, Inr ()))"

definition containers_run :: "sandbox_run \<Rightarrow> world \<Rightarrow> world \<times> (py_exception + string)" where
  "containers_run sb w =
     (case run_raises sb of
        Some e \<Rightarrow> (w, Inl e)
      | None \<Rightarrow>
          (w\<lparr>containers := (containers w)(new_container_id sb \<mapsto>
                \<lparr>container_image = uuid4 sb, container_status = Running\<rparr>)\<rparr>,
           Inr (new_container_id sb)))"

text \<open>
  \<open>for line in container.logs(stream=True)\<close> follows the log until the container has
  exited: by then the program has done what it does to the file system, with whatever exit
  status. The container was started detached and nothing bounds its run, so on a program
  that never ends the loop never ends either: the call does not come back, which is the
  value \<open>None\<close>, here and in everything that calls it.
\<close>

definition container_logs ::
  "sandbox_run \<Rightarrow> world \<Rightarrow> string \<Rightarrow> (world \<times> (py_exception + unit)) option" where
  "container_logs sb w cid =
     (case logs_raises sb of
        Some e \<Rightarrow> Some (w, Inl e)
      | None \<Rightarrow>
          if container_exits sb
          then Some (w\<lparr>files := program_effect sb (files w),
                        containers := (containers w)(cid \<mapsto>
                          \<lparr>container_image = uuid4 sb,
                           container_status = Exited (exit_status sb)\<rparr>)\<rparr>,
                     Inr ())
          else None)"

definition container_stop :: "sandbox_run \<Rightarrow> world \<Rightarrow> string \<Rightarrow> world \<times> (py_exception + unit)" where
  "container_stop sb w cid =
     (case stop_raises sb of
        Some e \<Rightarrow> (w, Inl e)
      | None \<Rightarrow>
          (case containers w cid of
             Some c \<Rightarrow>
               (case container_status c of
                  Running \<Rightarrow>
                    (w\<lparr>containers := (containers w)(cid \<mapsto>
                         c\<lparr>container_status := Exited 137\<rparr>)\<rparr>, Inr ())
                | Exited _ \<Rightarrow> (w, Inr ()))
           | None \<Rightarrow> (w, Inr ())))"

definition container_remove :: "sandbox_run \<Rightarrow> world \<Rightarrow> string \<Rightarrow> world \<times> (py_exception + unit)" where
  "container_remove sb w cid =
     (case remove_raises sb of
        Some e \<Rightarrow> (w, Inl e)
      | None \<Rightarrow> (w\<lparr>containers := (containers w)(cid := None)\<rparr>, Inr ()))"

definition images_remove :: "sandbox_run \<Rightarrow> world \<Rightarrow> string \<Rightarrow> world \<times> (py_exception + unit)" where
  "images_remove sb w image_tag =
     (case image_remove_raises sb of
        Some e \<Rightarrow> (w, Inl e)
      | None \<Rightarrow> (w\<lparr>images := images w - {image_tag}\<rparr>, Inr ()))"

text \<open>
  \<open>save_docker_submission\<close>: the two directory checks, then build, run, logs, stop,
  remove, image remove in sequence. There is no \<open>try\<close> in it: the first call that raises
  ends it, with the world as that call left it.
\<close>

definition save_docker_submission ::
  "sandbox_run \<Rightarrow> world \<Rightarrow> string \<Rightarrow> string \<Rightarrow> (world \<times> (py_exception + unit)) option" where
  "save_docker_submission sb w output_directory submission_directory =
     (if \<not> os_path_exists (files w) output_directory
      then Some (w, Inl (PyExc ''ValueError''
                      (''Output directory '' @ output_directory @ '' does not exist'')))
      else if \<not> os_path_exists (files w) submission_directory
      then Some (w, Inl (PyExc ''ValueError''
                      (''Submission path '' @ submission_directory @ '' does not exist'')))
      else
        (let docker_image_tag = uuid4 sb
         in case images_build sb w of
              (w1, Inl e) \<Rightarrow> Some (w1, Inl e)
            | (w1, Inr _) \<Rightarrow>
          (case containers_run sb w1 of
              (w2, Inl e) \<Rightarrow> Some (w2, Inl e)
            | (w2, Inr cid) \<Rightarrow>
          (case container_logs sb w2 cid of
              None \<Rightarrow> None
            | Some (w3, Inl e) \<Rightarrow> Some (w3, Inl e)
            | Some (w3, Inr _) \<Rightarrow>
          (case container_stop sb w3 cid of
              (w4, Inl e) \<Rightarrow> Some (w4, Inl e)
            | (w4, Inr _) \<Rightarrow>
          (case container_remove sb w4 cid of
              (w5, Inl e) \<Rightarrow> Some (w5, Inl e)
            | (w5, Inr _) \<Rightarrow> Some (images_remove sb w5 docker_image_tag)))))))"

text \<open>\<open>get_submission_output\<close>: run the sandbox, read the result file, remove it.\<close>

definition get_submission_output ::
  "sandbox_run \<Rightarrow> world \<Rightarrow> string \<Rightarrow> string \<Rightarrow> (world \<times> (py_exception + py_value)) option" where
  "get_submission_output sb w output_directory submission_directory =
     (case save_docker_submission sb w output_directory submission_directory of
        None \<Rightarrow> None
      | Some (w1, Inl e) \<Rightarrow> Some (w1, Inl e)
      | Some (w1, Inr _) \<Rightarrow>
          (case read_json (files w1) (os_path_join output_directory ''output.json'') of
             Inl e \<Rightarrow> Some (w1, Inl e)
           | Inr data \<Rightarrow>
               (case os_remove (files w1) (os_path_join output_directory ''output.json'') of
                  Inl e \<Rightarrow> Some (w1, Inl e)
                | Inr fs' \<Rightarrow> Some (w1\<lparr>files := fs'\<rparr>, Inr data))))"

section \<open>The orchestrator (submission\_backend/poll.py)\<close>

definition SUBMISSION_DIR :: string where
  "SUBMISSION_DIR = ''submissions''"

definition REPOS :: "string list" where
  "REPOS = [''MLAI-AUS-Inc/trading-bot-test-team'', ''MLAI-AUS-Inc/trading-bot'']"

text \<open>\<open>repo_name.split('/')[-1]\<close>: what follows the last slash.\<close>

definition last_segment :: "string \<Rightarrow> string" where
  "last_segment s = rev (takeWhile (\<lambda>c. c \<noteq> CHR ''/'') (rev s))"

text \<open>
  \<open>run_evaluation\<close>. With \<open>clone\<close>, an existing \<open>repo_dir\<close> raises before anything
  is done; otherwise \<open>git clone\<close> runs through \<open>os.system\<close>, which never raises, and the
  \<open>finally\<close> removes \<open>repo_dir\<close> whatever \<open>get_submission_output\<close> did, once it has come
  back.
\<close>

definition run_evaluation ::
  "environment \<Rightarrow> world \<Rightarrow> string \<Rightarrow> string \<Rightarrow> string \<Rightarrow> string option \<Rightarrow> bool
     \<Rightarrow> (world \<times> (py_exception + py_value)) option" where
  "run_evaluation env w repo_name tag_name commit_sha repo_dir_arg clone =
     (let sb = sandbox env (length (evaluations w));
          w0 = w\<lparr>evaluations := evaluations w @ [(repo_name, commit_sha)]\<rparr>;
          repo_dir = (case repo_dir_arg of
                        None \<Rightarrow> SUBMISSION_DIR @ ''/'' @ last_segment repo_name
                      | Some d \<Rightarrow> d);
          output_directory = os_path_join (cwd env) ''output''
      in if clone
         then
           (if os_path_exists (files w0) repo_dir
            then Some (w0, Inl (PyExc ''ValueError''
                    (''The evaluation pipeline was just asked to clone into '' @ repo_dir
                       @ '' but that directory already exists'')))
            else
              (let w1 = (if clone_succeeds sb
                         then w0\<lparr>files := (files w0)(repo_dir \<mapsto> Directory)\<rparr>
                         else w0)
               in case get_submission_output sb w1 output_directory repo_dir of
                    None \<Rightarrow> None
                  | Some (w2, r) \<Rightarrow> Some (w2\<lparr>files := rm_rf (files w2) repo_dir\<rparr>, r)))
         else get_submission_output sb w0 output_directory repo_dir)"

text \<open>The dictionaries that \<open>submit_output\<close> builds.\<close>

definition base_submission :: "string \<Rightarrow> string \<Rightarrow> py_dict" where
  "base_submission repo_name commit_sha =
     [(''team'', PStr repo_name),
      (''commit_hash'', PStr commit_sha),
      (''score'', PInt 0),
      (''error'', PNone),
      (''error_traceback'', PNone),
      (''status'', PStr ''pending'')]"

text \<open>The placeholder could not be written: lines 78 to 81.\<close>

definition preliminary_failed :: "py_dict \<Rightarrow> py_dict" where
  "preliminary_failed base =
     AList.update ''error'' (PStr ''Failed to submit preliminary submission to database'')
       (AList.update ''status'' (PStr ''failed'') base)"

text \<open>
  \<open>traceback.format_exc()\<close>: the header, the stack frames (left out here) and the last
  line, which names the exception.
\<close>

definition format_exc :: "py_exception \<Rightarrow> string" where
  "format_exc e =
     ''Traceback (most recent call last):'' @ [CHR 0x0A] @ exc_type e @ '': '' @ exc_str e
       @ [CHR 0x0A]"

text \<open>The \<open>except Exception\<close> branch: lines 94 to 98.\<close>

definition failed_submission :: "py_dict \<Rightarrow> py_exception \<Rightarrow> py_dict" where
  "failed_submission base e =
     AList.update ''status'' (PStr ''failed'')
       (AList.update ''error_traceback'' (PStr (format_exc e))
          (AList.update ''error'' (PStr (exc_str e)) base))"

text \<open>
  The rest of the \<open>try\<close> body once \<open>run_evaluation\<close> has returned: lines 86 to 92. A
  result that is not a dictionary has no \<open>items\<close>; a missing key and a bad index raise.
\<close>

definition success_submission :: "py_dict \<Rightarrow> py_value \<Rightarrow> py_exception + py_dict" where
  "success_submission base output =
     (case output of
        PDict items \<Rightarrow>
          (let s1 = fold (\<lambda>(k, v) d. AList.update k v d) items base
           in case map_of s1 ''trials'' of
                None \<Rightarrow> Inl (PyExc ''KeyError'' (py_repr_str ''trials''))
              | Some trials \<Rightarrow>
             (case map_of s1 ''main_trial_idx'' of
                None \<Rightarrow> Inl (PyExc ''KeyError'' (py_repr_str ''main_trial_idx''))
              | Some idx \<Rightarrow>
             (case py_getitem trials idx of
                Inl e \<Rightarrow> Inl e
              | Inr main_trial \<Rightarrow>
                  Inr (AList.update ''status'' (PStr ''success'')
                         (AList.delete ''trials''
                            (AList.update ''main_trial'' main_trial s1))))))
      | _ \<Rightarrow> Inl (PyExc ''AttributeError'' ''object has no attribute items''))"

text \<open>
  The \<open>try\<close>/\<open>except Exception\<close> statement of \<open>submit_output\<close>: when the evaluation
  comes back, it ends with a dictionary in \<open>submission\<close>, never with an exception.
\<close>

definition evaluate_submission ::
  "environment \<Rightarrow> world \<Rightarrow> string \<Rightarrow> string \<Rightarrow> string \<Rightarrow> string option \<Rightarrow> bool
     \<Rightarrow> (world \<times> py_dict) option" where
  "evaluate_submission env w repo_name tag_name commit_sha repo_dir clone =
     (let base = base_submission repo_name commit_sha
      in case run_evaluation env w repo_name tag_name commit_sha repo_dir clone of
           None \<Rightarrow> None
         | Some (w', Inl e) \<Rightarrow> Some (w', failed_submission base e)
         | Some (w', Inr output) \<Rightarrow>
             (case success_submission base output of
                Inl e \<Rightarrow> Some (w', failed_submission base e)
              | Inr submission \<Rightarrow> Some (w', submission)))"

text \<open>
  \<open>submit_output\<close>: the placeholder, a second write when the store did not answer 200,
  the evaluation, the final write. The calls of \<open>db_client.submit\<close> stand outside the
  \<open>try\<close>, so what they raise leaves \<open>submit_output\<close>.
\<close>

definition submit_output ::
  "environment \<Rightarrow> world \<Rightarrow> string \<Rightarrow> string \<Rightarrow> string \<Rightarrow> string option \<Rightarrow> bool
     \<Rightarrow> (world \<times> (py_exception + unit)) option" where
  "submit_output env w repo_name tag_name commit_sha repo_dir clone =
     (let base = base_submission repo_name commit_sha
      in case submit env w base of
           (w1, Inl e) \<Rightarrow> Some (w1, Inl e)
         | (w1, Inr success) \<Rightarrow>
        (case (if success then (w1, Inr True) else submit env w1 (preliminary_failed base)) of
           (w2, Inl e) \<Rightarrow> Some (w2, Inl e)
         | (w2, Inr _) \<Rightarrow>
        (case evaluate_submission env w2 repo_name tag_name commit_sha repo_dir clone of
           None \<Rightarrow> None
         | Some (w3, submission) \<Rightarrow>
        (case submit env w3 submission of
           (w4, Inl e) \<Rightarrow> Some (w4, Inl e)
         | (w4, Inr _) \<Rightarrow> Some (w4, Inr ())))))"

text \<open>The loop of \<open>main\<close> over the tags of one repository.\<close>

fun main_tags ::
  "environment \<Rightarrow> world \<Rightarrow> string \<Rightarrow> (string \<times> string) list
     \<Rightarrow> (world \<times> (py_exception + unit)) option" where
  "main_tags env w repo_name [] = Some (w, Inr ())"
| "main_tags env w repo_name ((tag_name, commit_sha) # rest) =
     (if \<not> is_already_submitted w repo_name commit_sha
      then (case submit_output env w repo_name tag_name commit_sha None True of
              None \<Rightarrow> None
            | Some (w', Inl e) \<Rightarrow> Some (w', Inl e)
            | Some (w', Inr _) \<Rightarrow> main_tags env w' repo_name rest)
      else main_tags env w repo_name rest)"

text \<open>The loop of \<open>main\<close> over the repositories.\<close>

fun main_repos ::
  "environment \<Rightarrow> world \<Rightarrow> string list \<Rightarrow> (world \<times> (py_exception + unit)) option" where
  "main_repos env w [] = Some (w, Inr ())"
| "main_repos env w (repo_name # rest) =
     (case check_submission_tags (github env repo_name) of
        Inl e \<Rightarrow> Some (w, Inl e)
      | Inr submission_tags \<Rightarrow>
          (case main_tags env w repo_name submission_tags of
             None \<Rightarrow> None
           | Some (w', Inl e) \<Rightarrow> Some (w', Inl e)
           | Some (w', Inr _) \<Rightarrow> main_repos env w' rest))"

definition main :: "environment \<Rightarrow> world \<Rightarrow> (world \<times> (py_exception + unit)) option" where
  "main env w =
     (case startup_raises env of
        Some e \<Rightarrow> Some (w, Inl e)
      | None \<Rightarrow> main_repos env w REPOS)"

section \<open>Concrete inputs\<close>



definition example_listing :: "tag list" where
  "example_listing =
     [\<lparr>name = ''v1.0'', sha = ''aaa111''\<rparr>,
      \<lparr>name = ''submission-1'', sha = ''bbb222''\<rparr>]"

text \<open>An artifact as \<open>evaluate.py\<close> writes it, with one short trial.\<close>

definition example_trial :: py_value where
  "example_trial =
     PDict [(''actions'', PList [PInt 10, PInt 10]),
            (''profits'', PList [PFloat (-1/4), PFloat (-1/2)]),
            (''socs'', PList [PFloat (203/4), PFloat (103/2)]),
            (''market_prices'', PList [PFloat 36, PFloat 38]),
            (''start_step'', PInt 0),
            (''episode_length'', PInt 3)]"

definition example_output :: py_value where
  "example_output =
     PDict [(''class_name'', PStr ''SimplePolicy''),
            (''parameters'', PDict [(''quantity'', PInt 10)]),
            (''mean_profit'', PFloat (-3/8)),
            (''std_profit'', PFloat (1/8)),
            (''num_runs'', PInt 1),
            (''score'', PFloat (-3/8)),
            (''trials'', PList [example_trial]),
            (''main_trial_idx'', PInt 0)]"

definition host_world :: world where
  "host_world =
     \<lparr>files = [''/srv/output'' \<mapsto> Directory, ''/srv/bot'' \<mapsto> Directory],
      images = {}, containers = Map.empty, table = Map.empty,
      put_log = [], evaluations = []\<rparr>"

definition writes_output :: "filesystem \<Rightarrow> filesystem" where
  "writes_output fs = fs(''/srv/output/output.json'' \<mapsto> RegularFile (JsonText example_output))"

definition good_sandbox :: sandbox_run where
  "good_sandbox =
     \<lparr>clone_succeeds = True, uuid4 = ''6f1c2d3e'', build_raises = None, run_raises = None,
      new_container_id = ''c0ffee'', logs_raises = None, container_exits = True,
      program_effect = writes_output,
      exit_status = 0, stop_raises = None, remove_raises = None,
      image_remove_raises = None\<rparr>"

definition docker_error :: py_exception where
  "docker_error = PyExc ''APIError'' ''500 Server Error: Internal Server Error''"

definition run_fails_sandbox :: sandbox_run where
  "run_fails_sandbox = good_sandbox\<lparr>run_raises := Some docker_error\<rparr>"

definition logs_fail_sandbox :: sandbox_run where
  "logs_fail_sandbox = good_sandbox\<lparr>logs_raises := Some docker_error\<rparr>"

definition image_remove_fails_sandbox :: sandbox_run where
  "image_remove_fails_sandbox = good_sandbox\<lparr>image_remove_raises := Some docker_error\<rparr>"

text \<open>A submission whose program never ends.\<close>

definition looping_sandbox :: sandbox_run where
  "looping_sandbox = good_sandbox\<lparr>container_exits := False, program_effect := id\<rparr>"

definition crashing_sandbox :: sandbox_run where
  "crashing_sandbox = good_sandbox\<lparr>program_effect := id, exit_status := 1\<rparr>"

text \<open>A poll on the host, and ways it can go wrong.\<close>

definition host_env :: environment where
  "host_env =
     \<lparr>startup_raises = None, cwd = ''/srv'',
      github = (\<lambda>repo_name. if repo_name = ''MLAI-AUS-Inc/trading-bot''
                  then Response 200 example_listing else Response 200 []),
      put_item_response = (\<lambda>n. PutStatus 200),
      time_ms = (\<lambda>n. 1720000000000 + int n),
      sandbox = (\<lambda>n. good_sandbox)\<rparr>"





definition artifact_missing :: py_exception where
  "artifact_missing = PyExc ''FileNotFoundError''
     (''[Errno 2] No such file or directory: '' @ py_repr_str ''/srv/output/output.json'')"




definition crashing_env :: environment where
  "crashing_env = host_env\<lparr>sandbox := (\<lambda>n. crashing_sandbox)\<rparr>"

section \<open>Properties of the battery\<close>




section \<open>Properties of tag polling\<close>

lemma str_contains_sublist: "str_contains sub s \<longleftrightarrow> sublist sub s"
  by (induction s) (simp_all add: sublist_Cons_right)

lemma collect_submission_tags_eq:
  "collect_submission_tags ts acc =
     acc @ map (\<lambda>t. (name t, sha t))
             (filter (\<lambda>t. str_contains ''submission'' (name t)) ts)"
  by (induction ts arbitrary: acc) simp_all

text \<open>
  Claim C6. On a 200 response \<open>check_submission_tags\<close> returns, in the listing's order,
  the \<open>(name, sha)\<close> of exactly the tags whose name has \<open>submission\<close> as a substring:
  a tag of the listing is in the result if and only if its name contains it, and the result
  holds nothing else. Of \<open>v1.0\<close> and \<open>submission-1\<close> it keeps the second only.
\<close>

theorem check_submission_tags_filter:
  "(\<exists>r. check_submission_tags (Response 200 tags) = Inr r
        \<and> r = map (\<lambda>t. (name t, sha t)) (filter (\<lambda>t. sublist ''submission'' (name t)) tags)
        \<and> (\<forall>t \<in> set tags. (name t, sha t) \<in> set r \<longleftrightarrow> sublist ''submission'' (name t))
        \<and> (\<forall>p \<in> set r. \<exists>t \<in> set tags. p = (name t, sha t)))
   \<and> check_submission_tags
        (Response 200 [\<lparr>name = ''v1.0'', sha = s1\<rparr>, \<lparr>name = ''submission-1'', sha = s2\<rparr>])
       = Inr [(''submission-1'', s2)]"
proof -
  let ?r = "map (\<lambda>t. (name t, sha t)) (filter (\<lambda>t. sublist ''submission'' (name t)) tags)"
  have eq: "check_submission_tags (Response 200 tags) = Inr ?r"
    by (simp add: check_submission_tags_def collect_submission_tags_eq str_contains_sublist)
  have mem: "\<forall>t \<in> set tags. (name t, sha t) \<in> set ?r \<longleftrightarrow> sublist ''submission'' (name t)"
    by auto
  have src: "\<forall>p \<in> set ?r. \<exists>t \<in> set tags. p = (name t, sha t)"
    by auto
  have particular:
    "check_submission_tags
       (Response 200 [\<lparr>name = ''v1.0'', sha = s1\<rparr>, \<lparr>name = ''submission-1'', sha = s2\<rparr>])
      = Inr [(''submission-1'', s2)]"
    by (simp add: check_submission_tags_def)
  from eq mem src particular show ?thesis by blast
qed

theorem check_submission_tags_filter_witness:
  "check_submission_tags (Response 200 example_listing) = Inr [(''submission-1'', ''bbb222'')]
   \<and> \<lparr>name = ''submission-1'', sha = ''bbb222''\<rparr> \<in> set example_listing
   \<and> sublist ''submission'' ''submission-1''
   \<and> \<lparr>name = ''v1.0'', sha = ''aaa111''\<rparr> \<in> set example_listing
   \<and> \<not> sublist ''submission'' ''v1.0''"
  using check_submission_tags_filter [of example_listing]
  by (simp add: example_listing_def str_contains_sublist [symmetric])

section \<open>Properties of the sandbox runner\<close>

lemma save_ok:
  assumes "os_path_exists (files w) out" "os_path_exists (files w) sub"
    "build_raises sb = None" "run_raises sb = None" "logs_raises sb = None"
    "container_exits sb"
    "stop_raises sb = None" "remove_raises sb = None" "image_remove_raises sb = None"
  shows "save_docker_submission sb w out sub =
     Some (w\<lparr>files := program_effect sb (files w),
        containers := (containers w)(new_container_id sb := None),
        images := images w - {uuid4 sb}\<rparr>, Inr ())"
  using assms
  by (simp add: save_docker_submission_def images_build_def containers_run_def
      container_logs_def container_stop_def container_remove_def images_remove_def)

lemma save_Inr:
  assumes "save_docker_submission sb w out sub = Some (w', Inr u)"
  shows "w' = w\<lparr>files := program_effect sb (files w),
        containers := (containers w)(new_container_id sb := None),
        images := images w - {uuid4 sb}\<rparr>"
  using assms
  by (auto simp add: save_docker_submission_def images_build_def containers_run_def
      container_logs_def container_stop_def container_remove_def images_remove_def
      split: if_splits option.splits prod.splits sum.splits)

lemma save_None:
  "save_docker_submission sb w out sub = None \<longleftrightarrow>
     os_path_exists (files w) out \<and> os_path_exists (files w) sub
     \<and> build_raises sb = None \<and> run_raises sb = None \<and> logs_raises sb = None
     \<and> \<not> container_exits sb"
  by (auto simp add: save_docker_submission_def images_build_def containers_run_def
      container_logs_def container_stop_def container_remove_def images_remove_def
      split: if_splits option.splits prod.splits sum.splits)

lemma save_raises_early:
  assumes "\<not> os_path_exists (files w) out \<or> \<not> os_path_exists (files w) sub
      \<or> build_raises sb \<noteq> None"
  shows "\<exists>e. save_docker_submission sb w out sub = Some (w, Inl e)"
  using assms
  by (auto simp add: save_docker_submission_def images_build_def)

lemma save_raises_late:
  assumes "save_docker_submission sb w out sub = Some (w', Inl e)"
    and "os_path_exists (files w) out" "os_path_exists (files w) sub"
    and "build_raises sb = None"
  shows "uuid4 sb \<in> images w'"
    and "run_raises sb = None \<Longrightarrow>
         logs_raises sb \<noteq> None \<or> stop_raises sb \<noteq> None \<or> remove_raises sb \<noteq> None \<Longrightarrow>
         containers w' (new_container_id sb) \<noteq> None"
  using assms
  by (auto simp add: save_docker_submission_def images_build_def containers_run_def
      container_logs_def container_stop_def container_remove_def images_remove_def
      split: if_splits option.splits prod.splits sum.splits container_state.splits)

text \<open>
  Claim C2. Every way out of \<open>save_docker_submission\<close>. When it returns, the container
  it started is gone and no image carries the tag it drew; it returns when both directories
  exist, no Docker call raises and the container exits, whatever its exit status. When a
  directory is missing or the build raises, nothing was acquired and the world is left as
  it was. When a later call raises, the teardown is skipped: the built image stays, and so
  does the container unless the call that raised is the removal of the image. When the
  program never ends, the call never comes back.
\<close>

theorem save_docker_submission_exit_paths:
  "(save_docker_submission sb w out sub = Some (w', Inr ()) \<longrightarrow>
       uuid4 sb \<notin> images w'
     \<and> containers w' (new_container_id sb) = None
     \<and> images w' = images w - {uuid4 sb}
     \<and> containers w' = (containers w)(new_container_id sb := None))
   \<and> (os_path_exists (files w) out \<and> os_path_exists (files w) sub
        \<and> build_raises sb = None \<and> run_raises sb = None \<and> logs_raises sb = None
        \<and> container_exits sb
        \<and> stop_raises sb = None \<and> remove_raises sb = None \<and> image_remove_raises sb = None
      \<longrightarrow> (\<exists>w1. save_docker_submission sb w out sub = Some (w1, Inr ())))
   \<and> (\<not> os_path_exists (files w) out \<or> \<not> os_path_exists (files w) sub
        \<or> build_raises sb \<noteq> None
      \<longrightarrow> (\<exists>e. save_docker_submission sb w out sub = Some (w, Inl e)))
   \<and> (os_path_exists (files w) out \<and> os_path_exists (files w) sub
        \<and> build_raises sb = None
        \<and> save_docker_submission sb w out sub = Some (w', Inl e)
      \<longrightarrow> uuid4 sb \<in> images w'
          \<and> (run_raises sb = None
               \<and> (logs_raises sb \<noteq> None \<or> stop_raises sb \<noteq> None \<or> remove_raises sb \<noteq> None)
             \<longrightarrow> containers w' (new_container_id sb) \<noteq> None))
   \<and> (save_docker_submission sb w out sub = None \<longleftrightarrow>
        os_path_exists (files w) out \<and> os_path_exists (files w) sub
        \<and> build_raises sb = None \<and> run_raises sb = None \<and> logs_raises sb = None
        \<and> \<not> container_exits sb)"
proof (intro conjI impI)
  assume r: "save_docker_submission sb w out sub = Some (w', Inr ())"
  note w' = save_Inr [OF r]
  show "uuid4 sb \<notin> images w'" by (subst w') simp
  show "containers w' (new_container_id sb) = None" by (subst w') simp
  show "images w' = images w - {uuid4 sb}" by (subst w') simp
  show "containers w' = (containers w)(new_container_id sb := None)" by (subst w') simp
next
  assume "os_path_exists (files w) out \<and> os_path_exists (files w) sub
        \<and> build_raises sb = None \<and> run_raises sb = None \<and> logs_raises sb = None
        \<and> container_exits sb
        \<and> stop_raises sb = None \<and> remove_raises sb = None \<and> image_remove_raises sb = None"
  then show "\<exists>w1. save_docker_submission sb w out sub = Some (w1, Inr ())"
    by (simp add: save_ok)
next
  assume "\<not> os_path_exists (files w) out \<or> \<not> os_path_exists (files w) sub
        \<or> build_raises sb \<noteq> None"
  then show "\<exists>e. save_docker_submission sb w out sub = Some (w, Inl e)"
    by (rule save_raises_early)
next
  assume a: "os_path_exists (files w) out \<and> os_path_exists (files w) sub
        \<and> build_raises sb = None
        \<and> save_docker_submission sb w out sub = Some (w', Inl e)"
  then show "uuid4 sb \<in> images w'" by (blast intro: save_raises_late(1))
  assume "run_raises sb = None
      \<and> (logs_raises sb \<noteq> None \<or> stop_raises sb \<noteq> None \<or> remove_raises sb \<noteq> None)"
  with a save_raises_late(2) [of sb w out sub w' e]
  show "containers w' (new_container_id sb) \<noteq> None"
    by simp
next
  show "save_docker_submission sb w out sub = None \<longleftrightarrow>
        os_path_exists (files w) out \<and> os_path_exists (files w) sub
        \<and> build_raises sb = None \<and> run_raises sb = None \<and> logs_raises sb = None
        \<and> \<not> container_exits sb"
    by (rule save_None)
qed

lemma host_exists: "os_path_exists (files host_world) ''/srv/output''"
  "os_path_exists (files host_world) ''/srv/bot''"
  by (simp_all add: host_world_def os_path_exists_def)

text \<open>
  A run whose second Docker call raises, and one whose last Docker call does.
\<close>

theorem save_docker_submission_exit_paths_witness:
  "os_path_exists (files host_world) ''/srv/output''
   \<and> os_path_exists (files host_world) ''/srv/bot''
   \<and> build_raises run_fails_sandbox = None
   \<and> save_docker_submission run_fails_sandbox host_world ''/srv/output'' ''/srv/bot''
       = Some (host_world\<lparr>images := {''6f1c2d3e''}\<rparr>, Inl docker_error)
   \<and> uuid4 run_fails_sandbox \<in> images (host_world\<lparr>images := {''6f1c2d3e''}\<rparr>)
   \<and> save_docker_submission looping_sandbox host_world ''/srv/output'' ''/srv/bot'' = None"
proof -
  have b: "build_raises run_fails_sandbox = None"
    by (simp add: run_fails_sandbox_def good_sandbox_def)
  have s: "save_docker_submission run_fails_sandbox host_world ''/srv/output'' ''/srv/bot''
       = Some (host_world\<lparr>images := {''6f1c2d3e''}\<rparr>, Inl docker_error)"
    by (simp add: save_docker_submission_def images_build_def containers_run_def
        os_path_exists_def run_fails_sandbox_def good_sandbox_def host_world_def)
  have l: "build_raises looping_sandbox = None \<and> run_raises looping_sandbox = None
      \<and> logs_raises looping_sandbox = None \<and> \<not> container_exits looping_sandbox"
    by (simp add: looping_sandbox_def good_sandbox_def)
  note t = save_docker_submission_exit_paths
  from t [of run_fails_sandbox host_world "''/srv/output''" "''/srv/bot''"
      "host_world\<lparr>images := {''6f1c2d3e''}\<rparr>" docker_error] host_exists b s
  have i: "uuid4 run_fails_sandbox \<in> images (host_world\<lparr>images := {''6f1c2d3e''}\<rparr>)"
    by blast
  from t [of looping_sandbox host_world "''/srv/output''" "''/srv/bot''"] host_exists l
  have n: "save_docker_submission looping_sandbox host_world ''/srv/output'' ''/srv/bot'' = None"
    by blast
  from host_exists b s i n show ?thesis by blast
qed

text \<open>
  Claim C2 fails on the paths that raise. When \<open>containers.run\<close> raises after a build
  that succeeded, the built image stays; when streaming the logs raises, the container
  stays, running, and so does the image; when removing the image raises, the image stays.
\<close>

theorem save_docker_submission_leak_counterexample:
  "build_raises run_fails_sandbox = None
   \<and> save_docker_submission run_fails_sandbox host_world ''/srv/output'' ''/srv/bot''
       = Some (host_world\<lparr>images := {''6f1c2d3e''}\<rparr>, Inl docker_error)
   \<and> build_raises logs_fail_sandbox = None \<and> run_raises logs_fail_sandbox = None
   \<and> save_docker_submission logs_fail_sandbox host_world ''/srv/output'' ''/srv/bot''
       = Some (host_world\<lparr>images := {''6f1c2d3e''},
                 containers := [''c0ffee'' \<mapsto>
                   \<lparr>container_image = ''6f1c2d3e'', container_status = Running\<rparr>]\<rparr>,
               Inl docker_error)
   \<and> save_docker_submission image_remove_fails_sandbox host_world ''/srv/output'' ''/srv/bot''
       = Some (host_world\<lparr>files := writes_output (files host_world),
                 images := {''6f1c2d3e''}\<rparr>,
               Inl docker_error)"
  by (simp add: save_docker_submission_def images_build_def containers_run_def
      container_logs_def container_stop_def container_remove_def images_remove_def
      os_path_exists_def run_fails_sandbox_def logs_fail_sandbox_def
      image_remove_fails_sandbox_def good_sandbox_def host_world_def)

section \<open>Properties of the result extractor\<close>

lemma save_files:
  "save_docker_submission sb w out sub = Some (w1, Inr u) \<Longrightarrow>
     files w1 = program_effect sb (files w)"
  by (drule save_Inr) simp

lemma read_json_Inr:
  "read_json fs path = Inr data \<longleftrightarrow> fs path = Some (RegularFile (JsonText data))"
  by (auto simp: read_json_def split: option.splits node.splits file_content.splits)

lemma os_remove_file:
  "fs path = Some (RegularFile c) \<Longrightarrow> os_remove fs path = Inr (fs(path := None))"
  by (simp add: os_remove_def)

lemma get_submission_output_None:
  "get_submission_output sb w out sub = None \<longleftrightarrow> save_docker_submission sb w out sub = None"
  by (auto simp: get_submission_output_def split: option.splits prod.splits sum.splits)

lemma get_submission_output_Inr:
  assumes "get_submission_output sb w out sub = Some (w', Inr data)"
  shows "\<exists>w1. save_docker_submission sb w out sub = Some (w1, Inr ())
          \<and> files w1 (os_path_join out ''output.json'') = Some (RegularFile (JsonText data))
          \<and> w' = w1\<lparr>files := (files w1)(os_path_join out ''output.json'' := None)\<rparr>"
proof -
  from assms obtain w1 r where s: "save_docker_submission sb w out sub = Some (w1, r)"
    by (cases "save_docker_submission sb w out sub") (auto simp: get_submission_output_def)
  with assms obtain u where r: "r = Inr u"
    by (cases r) (simp_all add: get_submission_output_def)
  with assms s have rd: "read_json (files w1) (os_path_join out ''output.json'') = Inr data"
    by (auto simp: get_submission_output_def split: sum.splits)
  then have f: "files w1 (os_path_join out ''output.json'') = Some (RegularFile (JsonText data))"
    by (simp add: read_json_Inr)
  with assms s r rd have "w' = w1\<lparr>files := (files w1)(os_path_join out ''output.json'' := None)\<rparr>"
    by (simp add: get_submission_output_def os_remove_file)
  with s r f show ?thesis by simp
qed

lemma get_submission_output_missing:
  assumes "save_docker_submission sb w out sub = Some (w1, Inr u)"
    and "files w1 (os_path_join out ''output.json'') = None"
  shows "get_submission_output sb w out sub =
     Some (w1, Inl (PyExc ''FileNotFoundError''
        (''[Errno 2] No such file or directory: '' @ py_repr_str (os_path_join out ''output.json''))))"
  using assms by (simp add: get_submission_output_def read_json_def)

text \<open>
  Claim C7. When \<open>get_submission_output\<close> returns an artifact, that artifact is what the
  result file held once the sandbox had run, and the file is removed before the return: it
  no longer exists in the world that is returned, which differs from the world after the
  sandbox run in that path only. A following evaluation on the same mount whose program
  leaves the path as it finds it therefore never returns the old artifact: it raises, if
  its container exits at all.
\<close>

theorem get_submission_output_removes_file:
  assumes "get_submission_output sb w out sub = Some (w', Inr data)"
  shows "(\<exists>w1. save_docker_submission sb w out sub = Some (w1, Inr ())
            \<and> files w1 (os_path_join out ''output.json'') = Some (RegularFile (JsonText data))
            \<and> files w' = (files w1)(os_path_join out ''output.json'' := None))
       \<and> \<not> os_path_exists (files w') (os_path_join out ''output.json'')
       \<and> (program_effect sb2 (files w') (os_path_join out ''output.json'')
            = files w' (os_path_join out ''output.json'')
          \<longrightarrow> (\<forall>w2 d. get_submission_output sb2 w' out sub2 \<noteq> Some (w2, Inr d))
              \<and> (container_exits sb2
                 \<longrightarrow> (\<exists>w2 e. get_submission_output sb2 w' out sub2 = Some (w2, Inl e))))"
proof -
  let ?p = "os_path_join out ''output.json''"
  from get_submission_output_Inr [OF assms] obtain w1 where
    s: "save_docker_submission sb w out sub = Some (w1, Inr ())"
    and f: "files w1 ?p = Some (RegularFile (JsonText data))"
    and w': "w' = w1\<lparr>files := (files w1)(?p := None)\<rparr>"
    by blast
  have gone: "files w' ?p = None" by (simp add: w')
  have never: "get_submission_output sb2 w' out sub2 \<noteq> Some (w2, Inr d)"
    if keep: "program_effect sb2 (files w') ?p = files w' ?p" for w2 d
  proof
    assume "get_submission_output sb2 w' out sub2 = Some (w2, Inr d)"
    from get_submission_output_Inr [OF this] obtain w3 where
      s3: "save_docker_submission sb2 w' out sub2 = Some (w3, Inr ())"
      and f3: "files w3 ?p = Some (RegularFile (JsonText d))"
      by blast
    from save_files [OF s3] keep gone have "files w3 ?p = None" by simp
    with f3 show False by simp
  qed
  have raises: "\<exists>w2 e. get_submission_output sb2 w' out sub2 = Some (w2, Inl e)"
    if keep: "program_effect sb2 (files w') ?p = files w' ?p" and ex: "container_exits sb2"
  proof -
    from ex have "get_submission_output sb2 w' out sub2 \<noteq> None"
      by (simp add: get_submission_output_None save_None)
    then obtain w2 r where g: "get_submission_output sb2 w' out sub2 = Some (w2, r)"
      by (cases "get_submission_output sb2 w' out sub2") auto
    with never [OF keep] show ?thesis by (cases r) auto
  qed
  from s f w' have first: "\<exists>w1. save_docker_submission sb w out sub = Some (w1, Inr ())
            \<and> files w1 ?p = Some (RegularFile (JsonText data))
            \<and> files w' = (files w1)(?p := None)"
    by simp
  from gone have second: "\<not> os_path_exists (files w') ?p" by (simp add: os_path_exists_def)
  from first second never raises show ?thesis by blast
qed

lemma good_save:
  "save_docker_submission good_sandbox host_world ''/srv/output'' ''/srv/bot'' =
     Some (host_world\<lparr>files := writes_output (files host_world),
                  containers := (containers host_world)(''c0ffee'' := None),
                  images := images host_world - {''6f1c2d3e''}\<rparr>, Inr ())"
  by (simp add: save_ok host_exists good_sandbox_def)

lemma good_run:
  "get_submission_output good_sandbox host_world ''/srv/output'' ''/srv/bot'' =
     Some (host_world\<lparr>files := (writes_output (files host_world))(''/srv/output/output.json'' := None),
                  containers := (containers host_world)(''c0ffee'' := None),
                  images := images host_world - {''6f1c2d3e''}\<rparr>, Inr example_output)"
  by (simp add: get_submission_output_def good_save os_path_join_def read_json_def
      os_remove_def writes_output_def)

lemma good_run_world:
  "get_submission_output good_sandbox host_world ''/srv/output'' ''/srv/bot'' =
     Some (host_world, Inr example_output)"
proof -
  have "(writes_output (files host_world))(''/srv/output/output.json'' := None)
      = files host_world"
    by (rule ext) (simp add: writes_output_def host_world_def)
  moreover have "(containers host_world)(''c0ffee'' := None) = containers host_world"
    by (rule ext) (simp add: host_world_def)
  moreover have "images host_world - {''6f1c2d3e''} = images host_world"
    by (simp add: host_world_def)
  ultimately show ?thesis by (simp add: good_run)
qed

text \<open>
  A run that writes the artifact, followed on the same mount by a run that writes nothing.
\<close>

theorem get_submission_output_removes_file_witness:
  "get_submission_output good_sandbox host_world ''/srv/output'' ''/srv/bot''
     = Some (host_world, Inr example_output)
   \<and> \<not> os_path_exists (files host_world) ''/srv/output/output.json''
   \<and> program_effect crashing_sandbox (files host_world) ''/srv/output/output.json''
       = files host_world ''/srv/output/output.json''
   \<and> container_exits crashing_sandbox
   \<and> (\<exists>w2 e. get_submission_output crashing_sandbox host_world ''/srv/output'' ''/srv/bot''
         = Some (w2, Inl e))"
proof -
  have p: "os_path_join ''/srv/output'' ''output.json'' = ''/srv/output/output.json''"
    by (simp add: os_path_join_def)
  have keep: "program_effect crashing_sandbox (files host_world) ''/srv/output/output.json''
       = files host_world ''/srv/output/output.json''"
    by (simp add: crashing_sandbox_def)
  have ex: "container_exits crashing_sandbox"
    by (simp add: crashing_sandbox_def good_sandbox_def)
  note t = get_submission_output_removes_file [OF good_run_world,
      of crashing_sandbox "''/srv/bot''", unfolded p]
  from t have a: "\<not> os_path_exists (files host_world) ''/srv/output/output.json''"
    by blast
  from t keep ex
  have b: "\<exists>w2 e. get_submission_output crashing_sandbox host_world ''/srv/output'' ''/srv/bot''
         = Some (w2, Inl e)"
    by blast
  from good_run_world a keep ex b show ?thesis by blast
qed

section \<open>Properties of the store client and the orchestrator\<close>

subsection \<open>Dictionaries and the store client\<close>

lemma map_of_convert_items:
  "map_of (map (map_prod id f) kvs) k = map_option f (map_of kvs k)"
  by (induction kvs) auto

lemma fold_update_keeps:
  "map_of d k \<noteq> None \<Longrightarrow> map_of (fold (\<lambda>(k, v) d. AList.update k v d) items d) k \<noteq> None"
  by (induction items arbitrary: d) (auto simp: update_conv')

lemma base_keys:
  "map_of (base_submission repo c) ''team'' = Some (PStr repo)"
  "map_of (base_submission repo c) ''commit_hash'' = Some (PStr c)"
  "map_of (base_submission repo c) ''status'' = Some (PStr ''pending'')"
  by (simp_all add: base_submission_def)

lemma failed_submission_fields:
  "map_of (failed_submission (base_submission repo c) e) ''team'' = Some (PStr repo)"
  "map_of (failed_submission (base_submission repo c) e) ''commit_hash'' = Some (PStr c)"
  "map_of (failed_submission (base_submission repo c) e) ''status'' = Some (PStr ''failed'')"
  "map_of (failed_submission (base_submission repo c) e) ''error'' = Some (PStr (exc_str e))"
  "map_of (failed_submission (base_submission repo c) e) ''error_traceback''
     = Some (PStr (format_exc e))"
  by (simp_all add: failed_submission_def base_submission_def update_conv')

lemma preliminary_failed_fields:
  "map_of (preliminary_failed (base_submission repo c)) ''team'' = Some (PStr repo)"
  "map_of (preliminary_failed (base_submission repo c)) ''commit_hash'' = Some (PStr c)"
  "map_of (preliminary_failed (base_submission repo c)) ''status'' = Some (PStr ''failed'')"
  by (simp_all add: preliminary_failed_def base_submission_def update_conv')

lemma success_submission_fields:
  assumes "success_submission (base_submission repo c) res = Inr s"
  shows "map_of s ''team'' \<noteq> None" "map_of s ''commit_hash'' \<noteq> None"
    "map_of s ''status'' = Some (PStr ''success'')"
proof -
  from assms obtain items where o: "res = PDict items"
    by (cases res) (simp_all add: success_submission_def)
  let ?s1 = "fold (\<lambda>(k, v) d. AList.update k v d) items (base_submission repo c)"
  from assms o obtain mt where
    s: "s = AList.update ''status'' (PStr ''success'')
             (AList.delete ''trials'' (AList.update ''main_trial'' mt ?s1))"
    by (auto simp: success_submission_def Let_def split: option.splits sum.splits)
  have "map_of ?s1 ''team'' \<noteq> None" "map_of ?s1 ''commit_hash'' \<noteq> None"
    by (rule fold_update_keeps, simp add: base_keys)+
  then show "map_of s ''team'' \<noteq> None" "map_of s ''commit_hash'' \<noteq> None"
    by (simp_all add: s update_conv' delete_conv')
  show "map_of s ''status'' = Some (PStr ''success'')"
    by (simp add: s update_conv')
qed

lemma cloned_submission_lookup:
  "k \<noteq> ''submitted_at'' \<Longrightarrow>
     map_of (cloned_submission env n s) k = map_option convert_floats_to_decimal (map_of s k)"
  by (simp add: cloned_submission_def update_conv' map_of_convert_items)

lemma submit_unchanged:
  "files (fst (submit env w s)) = files w"
  "images (fst (submit env w s)) = images w"
  "containers (fst (submit env w s)) = containers w"
  "evaluations (fst (submit env w s)) = evaluations w"
  by (simp_all add: submit_def Let_def split: option.splits put_outcome.splits prod.splits)

lemma submit_table_dom:
  "table w k \<noteq> None \<Longrightarrow> table (fst (submit env w s)) k \<noteq> None"
  by (auto simp: submit_def Let_def split: option.splits put_outcome.splits prod.splits)

lemma submit_put_log:
  assumes "map_of s ''team'' \<noteq> None" "map_of s ''commit_hash'' \<noteq> None"
  shows "put_log (fst (submit env w s)) = put_log w @ [cloned_submission env (length (put_log w)) s]"
    and "snd (submit env w s) =
      (case put_item_response env (length (put_log w)) of
         PutRaises e \<Rightarrow> Inl e
       | PutStatus code \<Rightarrow> Inr (code = 200))"
  using assms
  by (auto simp: submit_def Let_def split: option.splits put_outcome.splits prod.splits)

lemma submit_Inl:
  assumes "submit env w s = (w', Inl e)"
    and "map_of s ''team'' \<noteq> None" "map_of s ''commit_hash'' \<noteq> None"
  shows "put_item_response env (length (put_log w)) = PutRaises e"
  using submit_put_log(2) [OF assms(2,3), of env w] assms(1)
  by (auto split: put_outcome.splits)

lemma submit_returns:
  assumes "\<forall>k e. put_item_response env k \<noteq> PutRaises e"
    and "map_of s ''team'' \<noteq> None" "map_of s ''commit_hash'' \<noteq> None"
  shows "submit env w s =
     (fst (submit env w s), Inr (put_item_response env (length (put_log w)) = PutStatus 200))"
proof -
  from assms(1) obtain code where "put_item_response env (length (put_log w)) = PutStatus code"
    by (cases "put_item_response env (length (put_log w))") auto
  with submit_put_log(2) [OF assms(2,3), of env w]
  have "snd (submit env w s) = Inr (put_item_response env (length (put_log w)) = PutStatus 200)"
    by simp
  then show ?thesis by (metis prod.collapse)
qed

lemma submit_stores:
  assumes "map_of s ''team'' = Some (PStr t)" "map_of s ''commit_hash'' = Some (PStr c)"
    and "put_item_response env (length (put_log w)) = PutStatus 200"
  shows "table (fst (submit env w s)) (PStr t, PStr c)
     = Some (cloned_submission env (length (put_log w)) s)"
  using assms by (simp add: submit_def Let_def cloned_submission_lookup)

subsection \<open>What an evaluation reads and changes\<close>

lemma save_unchanged:
  assumes "save_docker_submission sb w out sub = Some (w', r)"
  shows "table w' = table w" "put_log w' = put_log w" "evaluations w' = evaluations w"
  using assms
  by (auto simp add: save_docker_submission_def images_build_def containers_run_def
      container_logs_def container_stop_def container_remove_def images_remove_def
      split: if_splits option.splits container_state.splits)

lemma get_submission_output_unchanged:
  assumes "get_submission_output sb w out sub = Some (w', r)"
  shows "table w' = table w" "put_log w' = put_log w" "evaluations w' = evaluations w"
  using assms save_unchanged [of sb w out sub]
  by (auto simp: get_submission_output_def split: option.splits prod.splits sum.splits)

lemma run_evaluation_unchanged:
  assumes "run_evaluation env w repo tg c dir clone = Some (w', r)"
  shows "table w' = table w" "put_log w' = put_log w"
    "evaluations w' = evaluations w @ [(repo, c)]"
  using assms
  by (auto simp add: run_evaluation_def Let_def
      split: if_splits option.splits prod.splits
      dest: get_submission_output_unchanged)

lemma save_store_indep:
  "save_docker_submission sb (w\<lparr>put_log := p, table := t, evaluations := ev\<rparr>) out sub =
     map_option (\<lambda>(w', r). (w'\<lparr>put_log := p, table := t, evaluations := ev\<rparr>, r))
       (save_docker_submission sb w out sub)"
  by (simp add: save_docker_submission_def images_build_def containers_run_def
      container_logs_def container_stop_def container_remove_def images_remove_def
      split: option.splits container_state.splits)

lemma get_submission_output_store_indep:
  "get_submission_output sb (w\<lparr>put_log := p, table := t, evaluations := ev\<rparr>) out sub =
     map_option (\<lambda>(w', r). (w'\<lparr>put_log := p, table := t, evaluations := ev\<rparr>, r))
       (get_submission_output sb w out sub)"
  by (auto simp add: get_submission_output_def save_store_indep
      split: option.splits sum.splits)

lemma get_submission_output_agree:
  assumes "files w2 = files w" "images w2 = images w" "containers w2 = containers w"
  shows "map_option snd (get_submission_output sb w2 out sub)
     = map_option snd (get_submission_output sb w out sub)"
proof -
  from assms have "w2 = w\<lparr>put_log := put_log w2, table := table w2,
      evaluations := evaluations w2\<rparr>"
    by simp
  then have "get_submission_output sb w2 out sub =
      get_submission_output sb (w\<lparr>put_log := put_log w2, table := table w2,
        evaluations := evaluations w2\<rparr>) out sub"
    by simp
  then show ?thesis
    by (simp only: get_submission_output_store_indep option.map_comp)
       (simp add: comp_def case_prod_beta)
qed

lemma get_submission_output_cleanup_agree:
  fixes v1 v2 :: world
  assumes "files v2 = files v1" "images v2 = images v1" "containers v2 = containers v1"
  shows "map_option snd (case get_submission_output sb v2 out sub of None \<Rightarrow> None
          | Some (w2, r) \<Rightarrow> Some (w2\<lparr>files := rm_rf (files w2) sub\<rparr>, r))
      = map_option snd (case get_submission_output sb v1 out sub of None \<Rightarrow> None
          | Some (w2, r) \<Rightarrow> Some (w2\<lparr>files := rm_rf (files w2) sub\<rparr>, r))"
  using get_submission_output_agree [OF assms, of sb out sub]
  by (cases "get_submission_output sb v1 out sub"; cases "get_submission_output sb v2 out sub")
     auto

lemma run_evaluation_agree:
  assumes "files w2 = files w" "images w2 = images w" "containers w2 = containers w"
    and "length (evaluations w2) = length (evaluations w)"
  shows "map_option snd (run_evaluation env w2 repo tg c dir clone) =
     map_option snd (run_evaluation env w repo tg c dir clone)"
  using assms
  by (auto simp: run_evaluation_def Let_def
      intro!: get_submission_output_cleanup_agree get_submission_output_agree)

subsection \<open>The record of an evaluation\<close>

lemma evaluate_submission_record:
  "map_option snd (evaluate_submission env w repo tg c dir clone) =
      map_option
        (\<lambda>r. case r of
           Inl e \<Rightarrow> failed_submission (base_submission repo c) e
         | Inr res \<Rightarrow> (case success_submission (base_submission repo c) res of
                      Inl e \<Rightarrow> failed_submission (base_submission repo c) e
                    | Inr submission \<Rightarrow> submission))
        (map_option snd (run_evaluation env w repo tg c dir clone))"
  by (simp add: evaluate_submission_def Let_def
      split: option.splits prod.splits sum.splits)

lemma evaluate_submission_world:
  "map_option fst (evaluate_submission env w repo tg c dir clone) =
     map_option fst (run_evaluation env w repo tg c dir clone)"
  by (simp add: evaluate_submission_def Let_def
      split: option.splits prod.splits sum.splits)

lemma evaluate_submission_agree:
  assumes "files w2 = files w" "images w2 = images w" "containers w2 = containers w"
    and "length (evaluations w2) = length (evaluations w)"
  shows "map_option snd (evaluate_submission env w2 repo tg c dir clone) =
     map_option snd (evaluate_submission env w repo tg c dir clone)"
  by (simp only: evaluate_submission_record run_evaluation_agree [OF assms])

lemma evaluate_submission_keys:
  assumes "evaluate_submission env w repo tg c dir clone = Some (w', sub)"
  shows "map_of sub ''team'' \<noteq> None" "map_of sub ''commit_hash'' \<noteq> None"
    "map_of sub ''status'' = Some (PStr ''success'')
       \<or> map_of sub ''status'' = Some (PStr ''failed'')"
  using assms
  by (auto simp: evaluate_submission_def Let_def failed_submission_fields
      split: option.splits prod.splits sum.splits dest: success_submission_fields)

lemma evaluate_submission_success:
  assumes "evaluate_submission env w repo tg c dir clone = Some (w', sub)"
    and "map_of sub ''status'' = Some (PStr ''success'')"
  shows "\<exists>res. run_evaluation env w repo tg c dir clone = Some (w', Inr res)
       \<and> success_submission (base_submission repo c) res = Inr sub"
  using assms
  by (auto simp: evaluate_submission_def Let_def failed_submission_fields
      split: option.splits prod.splits sum.splits)

lemma evaluate_submission_raised:
  assumes "run_evaluation env w repo tg c dir clone = Some (w', Inl e)"
  shows "evaluate_submission env w repo tg c dir clone
     = Some (w', failed_submission (base_submission repo c) e)"
  using assms by (simp add: evaluate_submission_def)

lemma evaluate_submission_extraction_raised:
  assumes "run_evaluation env w repo tg c dir clone = Some (w', Inr res)"
    and "success_submission (base_submission repo c) res = Inl e"
  shows "evaluate_submission env w repo tg c dir clone
     = Some (w', failed_submission (base_submission repo c) e)"
  using assms by (simp add: evaluate_submission_def)

lemma run_evaluation_None:
  "run_evaluation env w repo tg c dir clone = None \<Longrightarrow>
     \<not> container_exits (sandbox env (length (evaluations w)))"
  by (auto simp: run_evaluation_def Let_def get_submission_output_None save_None
      split: if_splits option.splits prod.splits)

lemma evaluate_submission_None:
  "evaluate_submission env w repo tg c dir clone = None \<longleftrightarrow>
     run_evaluation env w repo tg c dir clone = None"
  by (auto simp: evaluate_submission_def Let_def split: option.splits prod.splits sum.splits)

lemma run_evaluation_Inr:
  assumes "run_evaluation env w repo tg c dir clone = Some (w', Inr res)"
  shows "program_effect (sandbox env (length (evaluations w)))
           (if clone \<and> clone_succeeds (sandbox env (length (evaluations w)))
            then (files w)((case dir of None \<Rightarrow> SUBMISSION_DIR @ ''/'' @ last_segment repo
                            | Some d \<Rightarrow> d) \<mapsto> Directory)
            else files w)
           (os_path_join (os_path_join (cwd env) ''output'') ''output.json'')
         = Some (RegularFile (JsonText res))"
proof -
  let ?sb = "sandbox env (length (evaluations w))"
  let ?rd = "case dir of None \<Rightarrow> SUBMISSION_DIR @ ''/'' @ last_segment repo | Some d \<Rightarrow> d"
  let ?out = "os_path_join (cwd env) ''output''"
  let ?w0 = "w\<lparr>evaluations := evaluations w @ [(repo, c)]\<rparr>"
  let ?w1 = "if clone \<and> clone_succeeds ?sb then ?w0\<lparr>files := (files ?w0)(?rd \<mapsto> Directory)\<rparr>
             else ?w0"
  from assms obtain wg where "get_submission_output ?sb ?w1 ?out ?rd = Some (wg, Inr res)"
    by (auto simp: run_evaluation_def Let_def split: if_splits option.splits prod.splits)
  from get_submission_output_Inr [OF this] obtain ws where
    s: "save_docker_submission ?sb ?w1 ?out ?rd = Some (ws, Inr ())"
    and f: "files ws (os_path_join ?out ''output.json'') = Some (RegularFile (JsonText res))"
    by blast
  from save_files [OF s] f show ?thesis by (auto split: if_splits)
qed

subsection \<open>One call of \<open>submit_output\<close>\<close>

lemma submit_output_Inl:
  assumes "submit_output env w repo tg c dir clone = Some (w', Inl e)"
  shows "\<exists>n. put_item_response env n = PutRaises e"
proof -
  let ?base = "base_submission repo c"
  obtain w1 r1 where s1: "submit env w ?base = (w1, r1)" by (cases "submit env w ?base")
  show ?thesis
  proof (cases r1)
    case (Inl e1)
    with s1 assms have "e1 = e" by (simp add: submit_output_def)
    with s1 Inl show ?thesis by (auto dest!: submit_Inl simp: base_keys)
  next
    case (Inr ok)
    obtain w2 r2 where s2:
      "(if ok then (w1, Inr True) else submit env w1 (preliminary_failed ?base)) = (w2, r2)"
      by (cases "if ok then (w1, Inr True) else submit env w1 (preliminary_failed ?base)")
    show ?thesis
    proof (cases r2)
      case (Inl e2)
      with s1 Inr s2 assms have "e2 = e" by (simp add: submit_output_def)
      with s2 Inl have "submit env w1 (preliminary_failed ?base) = (w2, Inl e)"
        by (auto split: if_splits)
      then show ?thesis by (auto dest!: submit_Inl simp: preliminary_failed_fields)
    next
      case r2: (Inr ok2)
      from s1 Inr s2 r2 assms obtain w3 sub where
        ev: "evaluate_submission env w2 repo tg c dir clone = Some (w3, sub)"
        by (cases "evaluate_submission env w2 repo tg c dir clone")
           (auto simp: submit_output_def)
      obtain w4 r4 where s4: "submit env w3 sub = (w4, r4)" by (cases "submit env w3 sub")
      from s1 Inr s2 r2 ev s4 assms have "r4 = Inl e"
        by (auto simp: submit_output_def split: sum.splits)
      with s4 evaluate_submission_keys(1,2) [OF ev] show ?thesis
        by (auto dest!: submit_Inl)
    qed
  qed
qed

lemma submit_table:
  assumes "map_of s ''team'' = Some t" "map_of s ''commit_hash'' = Some c"
  shows "table (fst (submit env w s)) =
     (if put_item_response env (length (put_log w)) = PutStatus 200
      then (table w)((convert_floats_to_decimal t, convert_floats_to_decimal c)
              \<mapsto> cloned_submission env (length (put_log w)) s)
      else table w)"
  using assms
  by (auto simp: submit_def Let_def cloned_submission_lookup split: put_outcome.splits)

lemma submit_output_trace:
  assumes nr: "\<forall>k e. put_item_response env k \<noteq> PutRaises e"
    and ev: "evaluate_submission env w repo tg c dir clone = Some (we, sub)"
  shows "\<exists>w'. submit_output env w repo tg c dir clone = Some (w', Inr ())
     \<and> put_log w' =
       put_log w @ cloned_submission env (length (put_log w)) (base_submission repo c) #
         (if put_item_response env (length (put_log w)) = PutStatus 200 then []
          else [cloned_submission env (Suc (length (put_log w)))
                  (preliminary_failed (base_submission repo c))])
         @ [cloned_submission env
              (if put_item_response env (length (put_log w)) = PutStatus 200
               then Suc (length (put_log w)) else Suc (Suc (length (put_log w))))
              sub]
     \<and> evaluations w' = evaluations w @ [(repo, c)]
     \<and> (\<forall>k. table w k \<noteq> None \<longrightarrow> table w' k \<noteq> None)
     \<and> (put_item_response env (length (put_log w)) = PutStatus 200
          \<longrightarrow> table w' (PStr repo, PStr c) \<noteq> None)
     \<and> (\<forall>t cc. map_of sub ''team'' = Some t \<and> map_of sub ''commit_hash'' = Some cc
            \<and> put_item_response env (length (put_log w') - 1) = PutStatus 200
          \<longrightarrow> table w' (convert_floats_to_decimal t, convert_floats_to_decimal cc)
                = Some (last (put_log w')))
     \<and> (\<forall>t cc. map_of sub ''team'' = Some t \<and> map_of sub ''commit_hash'' = Some cc
            \<and> (convert_floats_to_decimal t, convert_floats_to_decimal cc) \<noteq> (PStr repo, PStr c)
            \<and> put_item_response env (length (put_log w)) = PutStatus 200
          \<longrightarrow> table w' (PStr repo, PStr c)
                = Some (cloned_submission env (length (put_log w)) (base_submission repo c)))"
proof -
  let ?base = "base_submission repo c"
  let ?n = "length (put_log w)"
  let ?ok = "put_item_response env ?n = PutStatus 200"
  define w1 where "w1 = fst (submit env w ?base)"
  define w2 where "w2 = (if ?ok then w1 else fst (submit env w1 (preliminary_failed ?base)))"
  have s1: "submit env w ?base = (w1, Inr ?ok)"
    unfolding w1_def by (rule submit_returns [OF nr]) (simp_all add: base_keys)
  have l1: "put_log w1 = put_log w @ [cloned_submission env ?n ?base]"
    unfolding w1_def by (rule submit_put_log) (simp_all add: base_keys)
  have s2: "\<exists>b. (if ?ok then (w1, Inr True) else submit env w1 (preliminary_failed ?base))
      = (w2, Inr b)"
  proof (cases ?ok)
    case True
    then show ?thesis by (auto simp: w2_def)
  next
    case False
    have "submit env w1 (preliminary_failed ?base) =
        (fst (submit env w1 (preliminary_failed ?base)),
         Inr (put_item_response env (length (put_log w1)) = PutStatus 200))"
      by (rule submit_returns [OF nr]) (simp_all add: preliminary_failed_fields)
    with False show ?thesis unfolding w2_def by (simp only: if_False) blast
  qed
  have l2: "put_log w2 = put_log w @ cloned_submission env ?n ?base #
      (if ?ok then [] else [cloned_submission env (Suc ?n) (preliminary_failed ?base)])"
    unfolding w2_def
    by (simp add: l1 submit_put_log(1) [of "preliminary_failed ?base" env w1]
        preliminary_failed_fields)
  have same: "files w2 = files w" "images w2 = images w" "containers w2 = containers w"
    "evaluations w2 = evaluations w"
    unfolding w2_def w1_def by (simp_all add: submit_unchanged)
  have t1: "table w1 k \<noteq> None" if "table w k \<noteq> None" for k
    unfolding w1_def using that by (rule submit_table_dom)
  have t2: "table w2 k \<noteq> None" if "table w k \<noteq> None" for k
  proof (cases ?ok)
    case True
    with t1 [OF that] show ?thesis by (simp add: w2_def)
  next
    case False
    then have "w2 = fst (submit env w1 (preliminary_failed ?base))" by (simp add: w2_def)
    with submit_table_dom [OF t1 [OF that], of env "preliminary_failed ?base"]
    show ?thesis by simp
  qed
  have k1: "table w1 (PStr repo, PStr c) \<noteq> None" if ?ok
    unfolding w1_def using submit_stores [of ?base repo c env w] that
    by (simp add: base_keys)
  have k2: "table w2 (PStr repo, PStr c) \<noteq> None" if ?ok
    unfolding w2_def using k1 [OF that] that by simp
  from evaluate_submission_agree [OF same(1,2,3), of env repo tg c dir clone] same(4) ev
  obtain w3 where ev2: "evaluate_submission env w2 repo tg c dir clone = Some (w3, sub)"
    by (cases "evaluate_submission env w2 repo tg c dir clone") auto
  note keys = evaluate_submission_keys(1,2) [OF ev2]
  from ev2 evaluate_submission_world [of env w2 repo tg c dir clone]
  obtain r where run: "run_evaluation env w2 repo tg c dir clone = Some (w3, r)"
    by (cases "run_evaluation env w2 repo tg c dir clone") auto
  note l3 = run_evaluation_unchanged [OF run]
  define w4 where "w4 = fst (submit env w3 sub)"
  have s4: "\<exists>b. submit env w3 sub = (w4, Inr b)"
    unfolding w4_def using submit_returns [OF nr keys, of w3] by metis
  have l4: "put_log w4 = put_log w3 @ [cloned_submission env (length (put_log w3)) sub]"
    unfolding w4_def by (rule submit_put_log(1) [OF keys])
  have e4: "evaluations w4 = evaluations w3" "files w4 = files w3" "images w4 = images w3"
    "containers w4 = containers w3"
    unfolding w4_def by (simp_all add: submit_unchanged)
  have t4: "table w4 k \<noteq> None" if "table w2 k \<noteq> None" for k
    unfolding w4_def using that l3(1) by (intro submit_table_dom) simp
  from s1 s2 ev2 s4 have res: "submit_output env w repo tg c dir clone = Some (w4, Inr ())"
    by (auto simp: submit_output_def)
  have A: "put_log w4 =
       put_log w @ cloned_submission env ?n ?base #
         (if ?ok then [] else [cloned_submission env (Suc ?n) (preliminary_failed ?base)])
         @ [cloned_submission env (if ?ok then Suc ?n else Suc (Suc ?n)) sub]"
    by (simp add: l4 l3 l2)
  have B: "evaluations w4 = evaluations w @ [(repo, c)]"
    by (simp add: e4 l3 same)
  have C: "\<forall>k. table w k \<noteq> None \<longrightarrow> table w4 k \<noteq> None"
    using t2 t4 by blast
  have D: "?ok \<longrightarrow> table w4 (PStr repo, PStr c) \<noteq> None"
    using k2 t4 by blast
  have E: "\<forall>t cc. map_of sub ''team'' = Some t \<and> map_of sub ''commit_hash'' = Some cc
            \<and> put_item_response env (length (put_log w4) - 1) = PutStatus 200
          \<longrightarrow> table w4 (convert_floats_to_decimal t, convert_floats_to_decimal cc)
                = Some (last (put_log w4))"
  proof (intro allI impI)
    fix t cc
    assume h: "map_of sub ''team'' = Some t \<and> map_of sub ''commit_hash'' = Some cc
            \<and> put_item_response env (length (put_log w4) - 1) = PutStatus 200"
    then have "put_item_response env (length (put_log w3)) = PutStatus 200"
      by (simp add: l4)
    with h submit_table [of sub t cc env w3]
    show "table w4 (convert_floats_to_decimal t, convert_floats_to_decimal cc)
                = Some (last (put_log w4))"
      by (simp add: w4_def [symmetric] l4)
  qed
  have F: "\<forall>t cc. map_of sub ''team'' = Some t \<and> map_of sub ''commit_hash'' = Some cc
            \<and> (convert_floats_to_decimal t, convert_floats_to_decimal cc) \<noteq> (PStr repo, PStr c)
            \<and> ?ok
          \<longrightarrow> table w4 (PStr repo, PStr c) = Some (cloned_submission env ?n ?base)"
  proof (intro allI impI)
    fix t cc
    assume h: "map_of sub ''team'' = Some t \<and> map_of sub ''commit_hash'' = Some cc
            \<and> (convert_floats_to_decimal t, convert_floats_to_decimal cc) \<noteq> (PStr repo, PStr c)
            \<and> ?ok"
    then have "table w2 (PStr repo, PStr c) = Some (cloned_submission env ?n ?base)"
      using submit_table [of ?base "PStr repo" "PStr c" env w]
      by (simp add: w2_def w1_def base_keys)
    with h submit_table [of sub t cc env w3] l3(1)
    show "table w4 (PStr repo, PStr c) = Some (cloned_submission env ?n ?base)"
      by (auto simp: w4_def [symmetric])
  qed
  from res A B C D E F show ?thesis by blast
qed

lemma submit_output_None:
  assumes "submit_output env w repo tg c dir clone = None"
  shows "\<not> container_exits (sandbox env (length (evaluations w)))"
proof -
  let ?base = "base_submission repo c"
  from assms obtain w2 where
    n: "evaluate_submission env w2 repo tg c dir clone = None"
    and w2: "w2 = fst (submit env w ?base)
           \<or> w2 = fst (submit env (fst (submit env w ?base)) (preliminary_failed ?base))"
    by (auto simp: submit_output_def Let_def
        split: prod.splits sum.splits option.splits if_splits)
  from w2 have "evaluations w2 = evaluations w" by (auto simp: submit_unchanged)
  with n show ?thesis
    by (auto simp: evaluate_submission_None dest: run_evaluation_None)
qed



subsection \<open>Evaluations on the host\<close>

lemma example_repo_dir:
  "SUBMISSION_DIR @ ''/'' @ last_segment ''MLAI-AUS-Inc/trading-bot'' = ''submissions/trading-bot''"
  "SUBMISSION_DIR @ CHR ''/'' # last_segment ''MLAI-AUS-Inc/trading-bot''
     = ''submissions/trading-bot''"
  by (simp_all add: SUBMISSION_DIR_def last_segment_def)

lemma host_run:
  assumes env: "cwd env = ''/srv''" "sandbox env 0 = sb"
    and sb: "clone_succeeds sb" "build_raises sb = None" "run_raises sb = None"
      "logs_raises sb = None" "container_exits sb" "stop_raises sb = None"
      "remove_raises sb = None" "image_remove_raises sb = None"
  shows "program_effect sb
           = (\<lambda>fs. fs(''/srv/output/output.json'' \<mapsto> RegularFile (JsonText a))) \<Longrightarrow>
         \<exists>w'. run_evaluation env host_world ''MLAI-AUS-Inc/trading-bot'' tg ''bbb222'' None True
           = Some (w', Inr a)"
    and "program_effect sb = id \<Longrightarrow>
         \<exists>w'. run_evaluation env host_world ''MLAI-AUS-Inc/trading-bot'' tg ''bbb222'' None True
           = Some (w', Inl artifact_missing)"
proof -
  let ?w1 = "host_world\<lparr>evaluations := evaluations host_world @ [(''MLAI-AUS-Inc/trading-bot'', ''bbb222'')],
      files := (files host_world)(''submissions/trading-bot'' \<mapsto> Directory)\<rparr>"
  have s: "save_docker_submission sb ?w1 ''/srv/output'' ''submissions/trading-bot'' =
     Some (?w1\<lparr>files := program_effect sb (files ?w1),
        containers := (containers ?w1)(new_container_id sb := None),
        images := images ?w1 - {uuid4 sb}\<rparr>, Inr ())"
    by (rule save_ok) (simp_all add: sb os_path_exists_def host_world_def)
  have pre: "\<not> os_path_exists (files host_world) ''submissions/trading-bot''"
    "evaluations host_world = []"
    by (simp_all add: os_path_exists_def host_world_def)
  have run: "\<exists>w'. run_evaluation env host_world ''MLAI-AUS-Inc/trading-bot'' tg ''bbb222'' None True
           = Some (w', r)"
    if "\<exists>w'. get_submission_output sb ?w1 ''/srv/output'' ''submissions/trading-bot''
      = Some (w', r)" for r
    using that env sb(1) pre
    by (auto simp add: run_evaluation_def Let_def example_repo_dir os_path_join_def)
  show "\<exists>w'. run_evaluation env host_world ''MLAI-AUS-Inc/trading-bot'' tg ''bbb222'' None True
           = Some (w', Inr a)"
    if "program_effect sb
           = (\<lambda>fs. fs(''/srv/output/output.json'' \<mapsto> RegularFile (JsonText a)))"
    by (rule run) (simp add: get_submission_output_def s that os_path_join_def read_json_def
        os_remove_def)
  show "\<exists>w'. run_evaluation env host_world ''MLAI-AUS-Inc/trading-bot'' tg ''bbb222'' None True
           = Some (w', Inl artifact_missing)"
    if "program_effect sb = id"
  proof -
    have "files ?w1 ''/srv/output/output.json'' = None" by (simp add: host_world_def)
    then show ?thesis
      by (intro run) (simp add: get_submission_output_def s that os_path_join_def
          read_json_def artifact_missing_def)
  qed
qed





section \<open>Properties of the failure boundary of \<open>submit_output\<close>\<close>

lemma crashing_sandbox_fields:
  "clone_succeeds crashing_sandbox" "build_raises crashing_sandbox = None"
  "run_raises crashing_sandbox = None" "logs_raises crashing_sandbox = None"
  "container_exits crashing_sandbox" "stop_raises crashing_sandbox = None"
  "remove_raises crashing_sandbox = None" "image_remove_raises crashing_sandbox = None"
  "program_effect crashing_sandbox = id"
  by (simp_all add: crashing_sandbox_def good_sandbox_def)

lemma submit_output_last_record:
  assumes "\<forall>k x. put_item_response env k \<noteq> PutRaises x"
    and "evaluate_submission env w repo tg c dir clone = Some (w', sub)"
  shows "\<exists>w''. submit_output env w repo tg c dir clone = Some (w'', Inr ())
      \<and> put_log w'' \<noteq> []
      \<and> last (put_log w'') = cloned_submission env (length (put_log w'') - 1) sub"
proof -
  from submit_output_trace [OF assms] obtain w'' where
    r: "submit_output env w repo tg c dir clone = Some (w'', Inr ())"
    and l: "put_log w'' =
       put_log w @ cloned_submission env (length (put_log w)) (base_submission repo c) #
         (if put_item_response env (length (put_log w)) = PutStatus 200 then []
          else [cloned_submission env (Suc (length (put_log w)))
                  (preliminary_failed (base_submission repo c))])
         @ [cloned_submission env
              (if put_item_response env (length (put_log w)) = PutStatus 200
               then Suc (length (put_log w)) else Suc (Suc (length (put_log w))))
              sub]"
    by blast
  from l have "put_log w'' \<noteq> []" by simp
  moreover from l have "last (put_log w'') = cloned_submission env (length (put_log w'') - 1) sub"
    by simp
  ultimately show ?thesis using r by blast
qed

text \<open>
  Claim C3. Whatever \<open>run_evaluation\<close> raises, and whatever the extraction of the main
  trial from its result raises, ends in the \<open>failed\<close> record, which carries the message
  and the traceback. A record with status \<open>success\<close> is built only when the result file
  was there, holding JSON, once the sandbox had run. An exception leaves \<open>submit_output\<close>
  only when \<open>put_item\<close> raised it; when no \<open>put_item\<close> raises and the evaluation comes
  back, \<open>submit_output\<close> returns, and the last item it wrote is the record of the
  evaluation. The evaluation comes back whenever the container exits.
\<close>

theorem submit_output_failure_boundary:
  "(run_evaluation env w repo tg c dir clone = Some (w', Inl e) \<longrightarrow>
      evaluate_submission env w repo tg c dir clone
        = Some (w', failed_submission (base_submission repo c) e))
   \<and> (run_evaluation env w repo tg c dir clone = Some (w', Inr res)
        \<and> success_submission (base_submission repo c) res = Inl e \<longrightarrow>
      evaluate_submission env w repo tg c dir clone
        = Some (w', failed_submission (base_submission repo c) e))
   \<and> map_of (failed_submission (base_submission repo c) e) ''status'' = Some (PStr ''failed'')
   \<and> map_of (failed_submission (base_submission repo c) e) ''error'' = Some (PStr (exc_str e))
   \<and> map_of (failed_submission (base_submission repo c) e) ''error_traceback''
       = Some (PStr (format_exc e))
   \<and> (evaluate_submission env w repo tg c dir clone = Some (w', sub)
        \<and> map_of sub ''status'' = Some (PStr ''success'') \<longrightarrow>
      (\<exists>data. program_effect (sandbox env (length (evaluations w)))
           (if clone \<and> clone_succeeds (sandbox env (length (evaluations w)))
            then (files w)((case dir of None \<Rightarrow> SUBMISSION_DIR @ ''/'' @ last_segment repo
                            | Some d \<Rightarrow> d) \<mapsto> Directory)
            else files w)
           (os_path_join (os_path_join (cwd env) ''output'') ''output.json'')
         = Some (RegularFile (JsonText data))))
   \<and> (submit_output env w repo tg c dir clone = Some (w', Inl e) \<longrightarrow>
      (\<exists>n. put_item_response env n = PutRaises e))
   \<and> ((\<forall>k x. put_item_response env k \<noteq> PutRaises x)
        \<and> evaluate_submission env w repo tg c dir clone = Some (w', sub) \<longrightarrow>
      (\<exists>w''. submit_output env w repo tg c dir clone = Some (w'', Inr ())
         \<and> put_log w'' \<noteq> []
         \<and> last (put_log w'') = cloned_submission env (length (put_log w'') - 1) sub))
   \<and> (container_exits (sandbox env (length (evaluations w))) \<longrightarrow>
        evaluate_submission env w repo tg c dir clone \<noteq> None
      \<and> submit_output env w repo tg c dir clone \<noteq> None)"
proof (intro conjI impI)
  assume "run_evaluation env w repo tg c dir clone = Some (w', Inl e)"
  then show "evaluate_submission env w repo tg c dir clone
        = Some (w', failed_submission (base_submission repo c) e)"
    by (rule evaluate_submission_raised)
next
  assume "run_evaluation env w repo tg c dir clone = Some (w', Inr res)
        \<and> success_submission (base_submission repo c) res = Inl e"
  then show "evaluate_submission env w repo tg c dir clone
        = Some (w', failed_submission (base_submission repo c) e)"
    by (simp add: evaluate_submission_extraction_raised)
next
  show "map_of (failed_submission (base_submission repo c) e) ''status'' = Some (PStr ''failed'')"
    by (rule failed_submission_fields)
  show "map_of (failed_submission (base_submission repo c) e) ''error'' = Some (PStr (exc_str e))"
    by (rule failed_submission_fields)
  show "map_of (failed_submission (base_submission repo c) e) ''error_traceback''
       = Some (PStr (format_exc e))"
    by (rule failed_submission_fields)
next
  assume a: "evaluate_submission env w repo tg c dir clone = Some (w', sub)
        \<and> map_of sub ''status'' = Some (PStr ''success'')"
  then obtain data where "run_evaluation env w repo tg c dir clone = Some (w', Inr data)"
    using evaluate_submission_success [of env w repo tg c dir clone w' sub] by blast
  from run_evaluation_Inr [OF this]
  show "\<exists>data. program_effect (sandbox env (length (evaluations w)))
           (if clone \<and> clone_succeeds (sandbox env (length (evaluations w)))
            then (files w)((case dir of None \<Rightarrow> SUBMISSION_DIR @ ''/'' @ last_segment repo
                            | Some d \<Rightarrow> d) \<mapsto> Directory)
            else files w)
           (os_path_join (os_path_join (cwd env) ''output'') ''output.json'')
         = Some (RegularFile (JsonText data))"
    by blast
next
  assume "submit_output env w repo tg c dir clone = Some (w', Inl e)"
  then show "\<exists>n. put_item_response env n = PutRaises e"
    by (rule submit_output_Inl)
next
  assume "(\<forall>k x. put_item_response env k \<noteq> PutRaises x)
        \<and> evaluate_submission env w repo tg c dir clone = Some (w', sub)"
  then show "\<exists>w''. submit_output env w repo tg c dir clone = Some (w'', Inr ())
         \<and> put_log w'' \<noteq> []
         \<and> last (put_log w'') = cloned_submission env (length (put_log w'') - 1) sub"
    by (blast intro: submit_output_last_record)
next
  assume ex: "container_exits (sandbox env (length (evaluations w)))"
  with run_evaluation_None [of env w repo tg c dir clone]
  have "run_evaluation env w repo tg c dir clone \<noteq> None" by blast
  then show "evaluate_submission env w repo tg c dir clone \<noteq> None"
    by (simp only: evaluate_submission_None not_False_eq_True)
  from ex submit_output_None [of env w repo tg c dir clone]
  show "submit_output env w repo tg c dir clone \<noteq> None" by blast
qed

text \<open>
  An evaluation whose program exits with status 1 and writes no result file: the record
  written last is the \<open>failed\<close> one, with the message of the \<open>FileNotFoundError\<close>.
\<close>

theorem submit_output_failure_boundary_witness:
  "(\<exists>w'. run_evaluation crashing_env host_world ''MLAI-AUS-Inc/trading-bot'' ''submission-1''
           ''bbb222'' None True = Some (w', Inl artifact_missing))
   \<and> (\<exists>w'. evaluate_submission crashing_env host_world ''MLAI-AUS-Inc/trading-bot''
           ''submission-1'' ''bbb222'' None True
         = Some (w', failed_submission
                       (base_submission ''MLAI-AUS-Inc/trading-bot'' ''bbb222'') artifact_missing))
   \<and> (\<exists>w''. submit_output crashing_env host_world ''MLAI-AUS-Inc/trading-bot''
           ''submission-1'' ''bbb222'' None True = Some (w'', Inr ())
         \<and> map_of (last (put_log w'')) ''status'' = Some (PStr ''failed'')
         \<and> map_of (last (put_log w'')) ''error'' = Some (PStr (exc_str artifact_missing)))"
proof -
  let ?R = "''MLAI-AUS-Inc/trading-bot''"
  let ?base = "base_submission ?R ''bbb222''"
  have env: "cwd crashing_env = ''/srv''" "sandbox crashing_env 0 = crashing_sandbox"
    "\<forall>k x. put_item_response crashing_env k \<noteq> PutRaises x"
    by (simp_all add: crashing_env_def host_env_def)
  from host_run(2) [OF env(1,2) crashing_sandbox_fields] obtain w' where
    run: "run_evaluation crashing_env host_world ?R ''submission-1'' ''bbb222'' None True
      = Some (w', Inl artifact_missing)"
    by blast
  note t = submit_output_failure_boundary [of crashing_env host_world ?R "''submission-1''"
      "''bbb222''" None True w' artifact_missing _ "failed_submission ?base artifact_missing"]
  from t run
  have ev: "evaluate_submission crashing_env host_world ?R ''submission-1'' ''bbb222'' None True
      = Some (w', failed_submission ?base artifact_missing)"
    by blast
  from t ev env(3) obtain w'' where
    out: "submit_output crashing_env host_world ?R ''submission-1'' ''bbb222'' None True
      = Some (w'', Inr ())"
    and l: "last (put_log w'') = cloned_submission crashing_env (length (put_log w'') - 1)
        (failed_submission ?base artifact_missing)"
    by blast
  from l have "map_of (last (put_log w'')) ''status'' = Some (PStr ''failed'')"
    "map_of (last (put_log w'')) ''error'' = Some (PStr (exc_str artifact_missing))"
    by (simp_all add: cloned_submission_lookup failed_submission_fields)
  with run ev out show ?thesis by blast
qed

section \<open>Properties of the status lifecycle\<close>











end
